theory Spec2Isabelle
  imports Main
begin

section \<open>Log levels\<close>

text \<open>
  \<^verbatim>\<open>type Level int\<close>. Levels are only stored and compared, never computed with, so the
  unbounded integers carry the same order as Go's machine \<^verbatim>\<open>int\<close>.
\<close>

type_synonym Level = int

definition LevelDebug :: Level where "LevelDebug = -4"
definition LevelInfo :: Level where "LevelInfo = 0"
definition LevelWarn :: Level where "LevelWarn = 4"
definition LevelError :: Level where "LevelError = 8"

section \<open>Package state and the outside world\<close>

text \<open>
  An \<^verbatim>\<open>io.Writer\<close> is an address into a store of sinks; each sink keeps the chunks it
  received, one per \<^verbatim>\<open>Write\<close>, oldest first. The four tiers may share a sink (all of
  them start on standard error). \<open>exited\<close> is the status \<^verbatim>\<open>os.Exit\<close> was called with.
\<close>

type_synonym writer = nat

definition os_Stderr :: writer where "os_Stderr = 0"

record state =
  activeLevel :: "string \<rightharpoonup> Level"
  mainPrefixName :: string
  debugOutput :: writer
  debugUsePrefix :: bool
  infoOutput :: writer
  infoUsePrefix :: bool
  warnOutput :: writer
  warnUsePrefix :: bool
  errorOutput :: writer
  errorUsePrefix :: bool
  written :: "writer \<Rightarrow> string list"
  exited :: "int option"

definition init_state :: state where
  "init_state =
     \<lparr> activeLevel = Map.empty, mainPrefixName = [],
       debugOutput = os_Stderr, debugUsePrefix = True,
       infoOutput = os_Stderr, infoUsePrefix = True,
       warnOutput = os_Stderr, warnUsePrefix = True,
       errorOutput = os_Stderr, errorUsePrefix = True,
       written = (\<lambda>w. []), exited = None \<rparr>"

text \<open>
  The call stack, innermost frame first. \<open>None\<close> is a frame whose function
  \<^verbatim>\<open>runtime.FuncForPC\<close> cannot resolve. Every active call owns one frame.
\<close>

record frame =
  fn_name :: string
  fn_file :: string
  fn_line :: int

type_synonym stack = "frame option list"

definition clog_frame :: "string \<Rightarrow> frame option" where
  "clog_frame f = Some \<lparr> fn_name = ''github.com/mewpkg/clog.'' @ f, fn_file = ''clog.go'', fn_line = 0 \<rparr>"

text \<open>
  Values handed to \<^verbatim>\<open>fmt\<close>: an operand of string kind, or any other operand together
  with its rendering under the verb \<^verbatim>\<open>%v\<close>.
\<close>

datatype any = StringArg string | OtherArg string

text \<open>
  Functions of other packages the code calls and this repository does not hold:
  \<^verbatim>\<open>fmt.Sprintf\<close> for arbitrary templates and the colour functions of
  \<^verbatim>\<open>github.com/mewpkg/term\<close>. They are parameters of the model.
\<close>

record extern =
  fmt_Sprintf :: "string \<Rightarrow> any list \<Rightarrow> string"
  term_MagentaBold :: "string \<Rightarrow> string"
  term_CyanBold :: "string \<Rightarrow> string"
  term_RedBold :: "string \<Rightarrow> string"
  term_WhiteBold :: "string \<Rightarrow> string"

section \<open>Go standard library functions used by the package\<close>

subsection \<open>strings.Index and strings.LastIndex\<close>

text \<open>The index of the first (last) instance of \<open>substr\<close> in \<open>s\<close>, or \<open>-1\<close>.\<close>

fun strings_Index :: "string \<Rightarrow> string \<Rightarrow> int" where
  "strings_Index [] substr = (if substr = [] then 0 else -1)"
| "strings_Index (c # s) substr =
     (if take (length substr) (c # s) = substr then 0
      else (let r = strings_Index s substr in if r = -1 then -1 else r + 1))"

fun strings_LastIndex :: "string \<Rightarrow> string \<Rightarrow> int" where
  "strings_LastIndex [] substr = (if substr = [] then 0 else -1)"
| "strings_LastIndex (c # s) substr =
     (let r = strings_LastIndex s substr in
      if r \<noteq> -1 then r + 1
      else if take (length substr) (c # s) = substr then 0 else -1)"

subsection \<open>fmt: Sprint, Sprintln, the verb %d, Fprint\<close>

fun isString :: "any \<Rightarrow> bool" where
  "isString (StringArg s) = True"
| "isString (OtherArg s) = False"

fun printArg :: "any \<Rightarrow> string" where
  "printArg (StringArg s) = s"
| "printArg (OtherArg s) = s"

text \<open>\<^verbatim>\<open>doPrint\<close>: a space goes between two operands when neither is a string.\<close>

fun doPrint :: "bool \<Rightarrow> nat \<Rightarrow> any list \<Rightarrow> string" where
  "doPrint prevString argNum [] = []"
| "doPrint prevString argNum (arg # a) =
     (if argNum > 0 \<and> \<not> isString arg \<and> \<not> prevString then '' '' else [])
       @ printArg arg @ doPrint (isString arg) (argNum + 1) a"

definition fmt_Sprint :: "any list \<Rightarrow> string" where
  "fmt_Sprint a = doPrint False 0 a"

text \<open>\<^verbatim>\<open>doPrintln\<close>: a space between all operands, and a newline at the end.\<close>

fun doPrintln :: "nat \<Rightarrow> any list \<Rightarrow> string" where
  "doPrintln argNum [] = [CHR 0x0A]"
| "doPrintln argNum (arg # a) =
     (if argNum > 0 then '' '' else []) @ printArg arg @ doPrintln (argNum + 1) a"

definition fmt_Sprintln :: "any list \<Rightarrow> string" where
  "fmt_Sprintln a = doPrintln 0 a"

fun fmt_decimal :: "nat \<Rightarrow> string" where
  "fmt_decimal n =
     (if n < 10 then [char_of (48 + n)]
      else fmt_decimal (n div 10) @ [char_of (48 + n mod 10)])"

declare fmt_decimal.simps [simp del]

definition fmt_d :: "int \<Rightarrow> string" where
  "fmt_d i = (if i < 0 then CHR ''-'' # fmt_decimal (nat (- i)) else fmt_decimal (nat i))"

text \<open>One \<^verbatim>\<open>fmt.Fprint\<close>, \<^verbatim>\<open>Fprintf\<close> or \<^verbatim>\<open>Fprintln\<close>: the rendered text goes to the
  writer in one \<^verbatim>\<open>Write\<close>. The error a writer may return is dropped by the code.\<close>

definition fmt_Fprint :: "writer \<Rightarrow> string \<Rightarrow> state \<Rightarrow> state" where
  "fmt_Fprint w s st = st\<lparr> written := (written st)(w := written st w @ [s]) \<rparr>"

definition os_Exit :: "int \<Rightarrow> state \<Rightarrow> state" where
  "os_Exit code st = st\<lparr> exited := Some code \<rparr>"

subsection \<open>path/filepath: Clean and Dir (Unix: separator /, no volume names)\<close>

text \<open>
  The output buffer of \<^verbatim>\<open>Clean\<close> is the string \<open>out\<close>, its write index \<^verbatim>\<open>out.w\<close> is
  \<open>length out\<close>. Backtracking over a \<^verbatim>\<open>..\<close> element moves the index down to the last
  separator, or to \<open>dotdot\<close>.
\<close>

function backtrack :: "string \<Rightarrow> nat \<Rightarrow> nat \<Rightarrow> nat" where
  "backtrack buf dotdot w =
     (if w > dotdot \<and> buf ! w \<noteq> CHR ''/'' then backtrack buf dotdot (w - 1) else w)"
  by pat_completeness auto
termination
  by (relation "measure (\<lambda>(buf, dotdot, w). w)") auto

declare backtrack.simps [simp del]

lemma len_dropWhile_lt: "length (dropWhile P xs) < Suc (length xs)"
  by (simp add: le_imp_less_Suc length_dropWhile_le)

text \<open>The main loop of \<^verbatim>\<open>Clean\<close> over the unread rest of the path.\<close>

function clean_loop :: "bool \<Rightarrow> nat \<Rightarrow> string \<Rightarrow> string \<Rightarrow> string" where
  "clean_loop rooted dotdot out [] = out"
| "clean_loop rooted dotdot out (c # cs) =
    (if c = CHR ''/'' then clean_loop rooted dotdot out cs
     else if c = CHR ''.'' \<and> (cs = [] \<or> hd cs = CHR ''/'') then clean_loop rooted dotdot out cs
     else if c = CHR ''.'' \<and> hd cs = CHR ''.'' \<and> (tl cs = [] \<or> hd (tl cs) = CHR ''/'') then
       (if length out > dotdot then
          clean_loop rooted dotdot (take (backtrack out dotdot (length out - 1)) out) (tl cs)
        else if \<not> rooted then
          (let out1 = (if length out > 0 then out @ ''/'' else out);
               out2 = out1 @ ''..''
           in clean_loop rooted (length out2) out2 (tl cs))
        else clean_loop rooted dotdot out (tl cs))
     else
       (let out1 = (if rooted \<and> length out \<noteq> 1 \<or> \<not> rooted \<and> length out \<noteq> 0
                    then out @ ''/'' else out)
        in clean_loop rooted dotdot (out1 @ c # takeWhile (\<lambda>x. x \<noteq> CHR ''/'') cs)
             (dropWhile (\<lambda>x. x \<noteq> CHR ''/'') cs)))"
  by pat_completeness auto
termination
  by (relation "measure (\<lambda>(rooted, dotdot, out, rest). length rest)")
     (simp_all add: len_dropWhile_lt)

definition filepath_Clean :: "string \<Rightarrow> string" where
  "filepath_Clean path =
    (if path = [] then ''.''
     else let rooted = (hd path = CHR ''/'');
              out = (if rooted then clean_loop rooted 1 ''/'' (tl path)
                     else clean_loop rooted 0 [] path)
          in if length out = 0 then ''.'' else out)"

text \<open>\<^verbatim>\<open>Dir\<close> scans back to the last separator and cleans what stands before it.\<close>

function dir_scan :: "string \<Rightarrow> int \<Rightarrow> int" where
  "dir_scan path i =
     (if i \<ge> 0 \<and> path ! nat i \<noteq> CHR ''/'' then dir_scan path (i - 1) else i)"
  by pat_completeness auto
termination
  by (relation "measure (\<lambda>(path, i). nat (i + 1))") auto

declare dir_scan.simps [simp del]

definition filepath_Dir :: "string \<Rightarrow> string" where
  "filepath_Dir path =
     (let i = dir_scan path (int (length path) - 1);
          dir = filepath_Clean (take (nat (i + 1)) path)
      in dir)"

subsection \<open>Facts about Clean and Dir\<close>

text \<open>
  A path splits at its last separator into the leading directories (through that
  separator) and the final segment.
\<close>

definition final_segment :: "string \<Rightarrow> string" where
  "final_segment name = rev (takeWhile (\<lambda>c. c \<noteq> CHR ''/'') (rev name))"

definition leading_dirs :: "string \<Rightarrow> string" where
  "leading_dirs name = rev (dropWhile (\<lambda>c. c \<noteq> CHR ''/'') (rev name))"

lemma split_at_last_slash: "leading_dirs name @ final_segment name = name"
  unfolding leading_dirs_def final_segment_def
  by (metis rev_append rev_rev_ident takeWhile_dropWhile_id)

lemma dir_scan_take:
  "n \<le> length path \<Longrightarrow>
     nat (dir_scan path (int n - 1) + 1) = length (dropWhile (\<lambda>c. c \<noteq> CHR ''/'') (rev (take n path)))"
proof (induction n)
  case 0
  then show ?case by (subst dir_scan.simps) simp
next
  case (Suc n)
  then have n: "n < length path" by simp
  have tk: "take (Suc n) path = take n path @ [path ! n]"
    using n by (simp add: take_Suc_conv_app_nth)
  show ?case
  proof (cases "path ! n = CHR ''/''")
    case True
    then show ?thesis using n tk by (subst dir_scan.simps) simp
  next
    case False
    have "dir_scan path (int (Suc n) - 1) = dir_scan path (int n - 1)"
      using False by (subst dir_scan.simps) simp
    then show ?thesis using Suc False tk by simp
  qed
qed

lemma filepath_Dir_leading: "filepath_Dir path = filepath_Clean (leading_dirs path)"
proof -
  have "nat (dir_scan path (int (length path) - 1) + 1) = length (leading_dirs path)"
    using dir_scan_take[of "length path" path] by (simp add: leading_dirs_def)
  then have "take (nat (dir_scan path (int (length path) - 1) + 1)) path = leading_dirs path"
    by (metis append_eq_conv_conj split_at_last_slash)
  then show ?thesis by (simp add: filepath_Dir_def)
qed

lemma backtrack_le: "backtrack buf dotdot w \<le> w"
proof (induction buf dotdot w rule: backtrack.induct)
  case (1 buf dotdot w)
  show ?case
  proof (cases "w > dotdot \<and> buf ! w \<noteq> CHR ''/''")
    case True
    then have "backtrack buf dotdot w = backtrack buf dotdot (w - 1)"
      by (subst backtrack.simps) simp
    with 1 True show ?thesis by simp
  next
    case False
    then show ?thesis by (subst backtrack.simps) auto
  qed
qed

text \<open>
  \<^verbatim>\<open>Clean\<close> never writes more than it reads: every separator it writes stands for one it
  has read, which \<open>sep_pending\<close> accounts for, and a separator at the end of the path is
  read and never written, which \<open>trailing_slash\<close> accounts for.
\<close>

definition sep_pending :: "bool \<Rightarrow> string \<Rightarrow> string \<Rightarrow> nat" where
  "sep_pending rooted out rest =
     (if rest = [] \<or> hd rest = CHR ''/'' \<or> (rooted \<and> length out = 1) \<or> (\<not> rooted \<and> length out = 0)
      then 0 else 1)"

definition trailing_slash :: "string \<Rightarrow> nat" where
  "trailing_slash rest = (if rest \<noteq> [] \<and> last rest = CHR ''/'' then 1 else 0)"

lemma dropWhile_slash_head:
  "dropWhile (\<lambda>x. x \<noteq> CHR ''/'') cs = [] \<or> hd (dropWhile (\<lambda>x. x \<noteq> CHR ''/'') cs) = CHR ''/''"
  using hd_dropWhile[of "\<lambda>x. x \<noteq> CHR ''/''" cs] by auto

lemma last_dropWhile: "dropWhile P cs \<noteq> [] \<Longrightarrow> last (dropWhile P cs) = last cs"
  by (metis last_appendR takeWhile_dropWhile_id)

lemma trailing_slash_dropWhile:
  assumes "c \<noteq> CHR ''/''"
  shows "trailing_slash (c # cs) \<le> trailing_slash (dropWhile (\<lambda>x. x \<noteq> CHR ''/'') cs)"
proof (cases "cs \<noteq> [] \<and> last cs = CHR ''/''")
  case True
  then have "CHR ''/'' \<in> set cs" using last_in_set by metis
  then have "dropWhile (\<lambda>x. x \<noteq> CHR ''/'') cs \<noteq> []"
    by (simp add: dropWhile_eq_Nil_conv)
  with True show ?thesis by (simp add: trailing_slash_def last_dropWhile)
next
  case False
  with assms show ?thesis by (auto simp: trailing_slash_def)
qed

lemma trailing_slash_tl:
  "cs \<noteq> [] \<Longrightarrow> hd cs \<noteq> CHR ''/'' \<Longrightarrow> c \<noteq> CHR ''/'' \<Longrightarrow> trailing_slash (c # cs) \<le> trailing_slash (tl cs)"
  by (cases cs) (auto simp: trailing_slash_def)

lemma length_takeWhile_dropWhile: "length (takeWhile P cs) + length (dropWhile P cs) = length cs"
  by (metis length_append takeWhile_dropWhile_id)

lemma clean_loop_length:
  "length (clean_loop rooted dotdot out rest) + trailing_slash rest
     \<le> length out + length rest + sep_pending rooted out rest"
proof (induction rooted dotdot out rest rule: clean_loop.induct)
  case (1 rooted dotdot out)
  then show ?case by (simp add: trailing_slash_def)
next
  case (2 rooted dotdot out c cs)
  show ?case
  proof (cases "c = CHR ''/''")
    case True
    then show ?thesis using 2(1)[OF True]
      by (auto simp: trailing_slash_def sep_pending_def split: if_splits)
  next
    case ns: False
    show ?thesis
    proof (cases "c = CHR ''.'' \<and> (cs = [] \<or> hd cs = CHR ''/'')")
      case True
      then show ?thesis using 2(2)[OF ns True] ns
        by (auto simp: trailing_slash_def sep_pending_def split: if_splits)
    next
      case nd: False
      show ?thesis
      proof (cases "c = CHR ''.'' \<and> hd cs = CHR ''.'' \<and> (tl cs = [] \<or> hd (tl cs) = CHR ''/'')")
        case True
        from True nd obtain ds where cs: "cs = CHR ''.'' # ds" by (cases cs) auto
        from True cs have ds: "ds = [] \<or> hd ds = CHR ''/''" by simp
        have tl0: "sep_pending rooted out' ds = 0" for out'
          using ds by (auto simp: sep_pending_def)
        have ts: "trailing_slash (c # cs) \<le> trailing_slash ds"
          using True cs by (auto simp: trailing_slash_def)
        show ?thesis
        proof (cases "length out > dotdot")
          case bt: True
          have "length (take (backtrack out dotdot (length out - 1)) out) \<le> length out"
            by simp
          then show ?thesis
            using 2(3)[OF ns nd True bt] True bt ts tl0 cs by simp
        next
          case nbt: False
          show ?thesis
          proof (cases rooted)
            case r: True
            then show ?thesis using 2(5)[OF ns nd True nbt] True nbt ts tl0 cs
              by simp
          next
            case nr: False
            then show ?thesis
              using 2(4)[OF ns nd True nbt nr refl refl] True nbt ts tl0 cs
              by (auto simp: sep_pending_def Let_def split: if_splits)
          qed
        qed
      next
        case ndd: False
        let ?out1 = "(if rooted \<and> length out \<noteq> 1 \<or> \<not> rooted \<and> length out \<noteq> 0 then out @ ''/'' else out)"
        let ?P = "\<lambda>x. x \<noteq> CHR ''/''"
        have d0: "sep_pending rooted out' (dropWhile ?P cs) = 0" for out'
          using dropWhile_slash_head[of cs] by (auto simp: sep_pending_def)
        have l1: "length ?out1 = length out + sep_pending rooted out (c # cs)"
          using ns by (auto simp: sep_pending_def)
        have step: "clean_loop rooted dotdot out (c # cs)
            = clean_loop rooted dotdot (?out1 @ c # takeWhile ?P cs) (dropWhile ?P cs)"
          by (subst clean_loop.simps) (simp only: ns nd ndd if_False Let_def)
        show ?thesis
          using 2(6)[OF ns nd ndd refl] trailing_slash_dropWhile[OF ns, of cs] d0[of "?out1 @ c # takeWhile ?P cs"] l1
            length_takeWhile_dropWhile[of ?P cs]
          unfolding step by (simp del: clean_loop.simps)
      qed
    qed
  qed
qed


lemma clean_loop_nonrooted_start:
  "length (clean_loop False 0 [] path) + trailing_slash path \<le> length path"
  using clean_loop_length[of False 0 "[]" path] by (simp add: sep_pending_def)

lemma clean_loop_rooted_start:
  "length (clean_loop True 1 ''/'' rest) + trailing_slash rest \<le> Suc (length rest)"
  using clean_loop_length[of True 1 "''/''" rest] by (simp add: sep_pending_def)

lemma filepath_Clean_nonempty: "filepath_Clean path \<noteq> []"
  by (simp add: filepath_Clean_def Let_def)

lemma filepath_Clean_length:
  assumes "path \<noteq> []"
  shows "length (filepath_Clean path) + (if 2 \<le> length path \<and> last path = CHR ''/'' then 1 else 0)
           \<le> length path"
proof -
  obtain c cs where p: "path = c # cs" using assms by (cases path) auto
  show ?thesis
  proof (cases "c = CHR ''/''")
    case True
    then show ?thesis using clean_loop_rooted_start[of cs] p
      by (auto simp: filepath_Clean_def Let_def trailing_slash_def split: if_splits)
  next
    case False
    then show ?thesis using clean_loop_nonrooted_start[of path] p
      by (auto simp: filepath_Clean_def Let_def trailing_slash_def split: if_splits)
  qed
qed

lemma leading_dirs_last:
  "CHR ''/'' \<in> set path \<Longrightarrow> leading_dirs path \<noteq> [] \<and> last (leading_dirs path) = CHR ''/''"
proof -
  assume "CHR ''/'' \<in> set path"
  then have ne: "dropWhile (\<lambda>c. c \<noteq> CHR ''/'') (rev path) \<noteq> []"
    by (simp add: dropWhile_eq_Nil_conv)
  then have "hd (dropWhile (\<lambda>c. c \<noteq> CHR ''/'') (rev path)) = CHR ''/''"
    using hd_dropWhile[of "\<lambda>c. c \<noteq> CHR ''/''" "rev path"] by simp
  with ne show ?thesis by (simp add: leading_dirs_def last_rev)
qed

lemma leading_dirs_no_slash: "CHR ''/'' \<notin> set path \<Longrightarrow> leading_dirs path = []"
  by (auto simp: leading_dirs_def dropWhile_eq_Nil_conv)

lemma length_leading_dirs: "length (leading_dirs path) \<le> length path"
  by (metis le_add1 length_append split_at_last_slash)

lemma filepath_Dir_no_slash: "CHR ''/'' \<notin> set path \<Longrightarrow> filepath_Dir path = ''.''"
  by (simp add: filepath_Dir_leading leading_dirs_no_slash filepath_Clean_def)

lemma filepath_Dir_nonempty: "filepath_Dir path \<noteq> []"
  by (simp add: filepath_Dir_leading filepath_Clean_nonempty)

lemma filepath_Dir_shorter:
  assumes sl: "CHR ''/'' \<in> set path" and ne: "filepath_Dir path \<noteq> path"
  shows "length (filepath_Dir path) < length path"
proof -
  let ?ld = "leading_dirs path"
  have ld: "?ld \<noteq> []" "last ?ld = CHR ''/''" using leading_dirs_last[OF sl] by auto
  show ?thesis
  proof (cases "2 \<le> length ?ld")
    case True
    then have "length (filepath_Clean ?ld) < length ?ld"
      using filepath_Clean_length[OF ld(1)] ld(2) by simp
    then show ?thesis using length_leading_dirs[of path] by (simp add: filepath_Dir_leading)
  next
    case False
    then have "length ?ld = 1" using ld(1) by (cases ?ld) (auto simp: not_le)
    then have one: "?ld = ''/''" using ld(2) by (cases ?ld) auto
    then have d: "filepath_Dir path = ''/''"
      by (simp add: filepath_Dir_leading filepath_Clean_def)
    have "final_segment path \<noteq> []"
    proof
      assume "final_segment path = []"
      then have "path = ?ld" using split_at_last_slash[of path] by simp
      with d one ne show False by simp
    qed
    then have "length path > 1"
      using split_at_last_slash[of path] one
      by (metis length_append length_greater_0_conv less_add_same_cancel1 list.size(3,4) One_nat_def add.commute plus_1_eq_Suc)
    then show ?thesis using d by simp
  qed
qed

text \<open>
  Going up strictly decreases this measure unless the path is its own parent: a path
  with a separator gets shorter, a path without one goes to \<^verbatim>\<open>.\<close>, which is its own
  parent.
\<close>

definition ascent_measure :: "string \<Rightarrow> nat" where
  "ascent_measure path =
     (if CHR ''/'' \<in> set path then length path + 2 else if path = ''.'' then 0 else 1)"

lemma ascent_measure_Dir:
  assumes "filepath_Dir path \<noteq> path"
  shows "ascent_measure (filepath_Dir path) < ascent_measure path"
proof (cases "CHR ''/'' \<in> set path")
  case True
  then have "length (filepath_Dir path) < length path"
    using assms filepath_Dir_shorter[of path] by simp
  then show ?thesis using True by (simp add: ascent_measure_def)
next
  case False
  then have "filepath_Dir path = ''.''" by (rule filepath_Dir_no_slash)
  then show ?thesis using assms False by (auto simp: ascent_measure_def)
qed


section \<open>The level registry\<close>

text \<open>
  \<^verbatim>\<open>PathLevel\<close> of the hierarchical variant: the loop tries the path, then the parent
  directory \<^verbatim>\<open>filepath.Dir\<close> gives, until the parent is empty or is the path itself.
\<close>

function PathLevel :: "state \<Rightarrow> string \<Rightarrow> Level \<times> bool" where
  "PathLevel st path =
     (case activeLevel st path of
        Some level \<Rightarrow> (level, True)
      | None \<Rightarrow>
          (let dir = filepath_Dir path in
           if length dir = 0 \<or> dir = path then (0, False)
           else PathLevel st dir))"
  by pat_completeness auto
termination
proof (relation "measure (\<lambda>(st, path). ascent_measure path)", goal_cases)
  case 1
  show ?case by simp
next
  case (2 st path dir)
  then have "filepath_Dir path \<noteq> path" by simp
  then show ?case using 2 ascent_measure_Dir[of path] by simp
qed

declare PathLevel.simps [simp del]

text \<open>
  The same loop with not returning as a value of its own (\<open>None\<close>), to state that the
  loop returns.
\<close>

partial_function (option) PathLevel_loop :: "state \<Rightarrow> string \<Rightarrow> (Level \<times> bool) option" where
  "PathLevel_loop st path =
     (case activeLevel st path of
        Some level \<Rightarrow> Some (level, True)
      | None \<Rightarrow>
          (let dir = filepath_Dir path in
           if length dir = 0 \<or> dir = path then Some (0, False)
           else PathLevel_loop st dir))"

text \<open>\<^verbatim>\<open>PathLevel\<close> of the exact variant (clog.go and the earliest file): one map read.\<close>

definition PathLevel_clog :: "state \<Rightarrow> string \<Rightarrow> Level \<times> bool" where
  "PathLevel_clog st path =
     (case activeLevel st path of
        Some level \<Rightarrow> (level, True)
      | None \<Rightarrow> (0, False))"

definition SetPathLevel :: "string \<Rightarrow> Level \<Rightarrow> state \<Rightarrow> state" where
  "SetPathLevel path level st = st\<lparr> activeLevel := (activeLevel st)(path \<mapsto> level) \<rparr>"

section \<open>Configuration\<close>

definition SetMainPrefixName :: "string \<Rightarrow> state \<Rightarrow> state" where
  "SetMainPrefixName name st = st\<lparr> mainPrefixName := name \<rparr>"

definition SetDebugOutput :: "writer \<Rightarrow> state \<Rightarrow> state" where
  "SetDebugOutput w st = st\<lparr> debugOutput := w \<rparr>"

definition SetDebugPrefix :: "bool \<Rightarrow> state \<Rightarrow> state" where
  "SetDebugPrefix usePrefix st = st\<lparr> debugUsePrefix := usePrefix \<rparr>"

definition SetInfoOutput :: "writer \<Rightarrow> state \<Rightarrow> state" where
  "SetInfoOutput w st = st\<lparr> infoOutput := w \<rparr>"

definition SetInfoPrefix :: "bool \<Rightarrow> state \<Rightarrow> state" where
  "SetInfoPrefix usePrefix st = st\<lparr> infoUsePrefix := usePrefix \<rparr>"

definition SetWarnOutput :: "writer \<Rightarrow> state \<Rightarrow> state" where
  "SetWarnOutput w st = st\<lparr> warnOutput := w \<rparr>"

definition SetWarnPrefix :: "bool \<Rightarrow> state \<Rightarrow> state" where
  "SetWarnPrefix usePrefix st = st\<lparr> warnUsePrefix := usePrefix \<rparr>"

definition SetErrorOutput :: "writer \<Rightarrow> state \<Rightarrow> state" where
  "SetErrorOutput w st = st\<lparr> errorOutput := w \<rparr>"

definition SetErrorPrefix :: "bool \<Rightarrow> state \<Rightarrow> state" where
  "SetErrorPrefix usePrefix st = st\<lparr> errorUsePrefix := usePrefix \<rparr>"

section \<open>Helper functions\<close>

text \<open>
  \<^verbatim>\<open>callerName(skip)\<close>, given the stack as its caller sees it (index 0 is the function
  that calls \<^verbatim>\<open>callerName\<close>): \<^verbatim>\<open>runtime.Callers(skip+2, pcs[:])\<close> fills the one slot with
  the frame \<open>skip\<close> levels up, or fills nothing when the stack is not that deep.
\<close>

definition callerName :: "stack \<Rightarrow> nat \<Rightarrow> string \<times> string \<times> int \<times> bool" where
  "callerName stk skip =
     (if \<not> skip < length stk then ([], [], 0, False)
      else (case stk ! skip of
              None \<Rightarrow> ([], [], 0, False)
            | Some fn \<Rightarrow> (fn_name fn, fn_file fn, fn_line fn, True)))"

definition getPkgPath :: "string \<Rightarrow> string" where
  "getPkgPath name =
     (let en = (0::int);
          pos = strings_LastIndex name ''/'';
          en = (if pos \<noteq> -1 then pos + 1 else en);
          pos = strings_Index (drop (nat en) name) ''.'';
          en = (if pos \<noteq> -1 then en + pos else en)
      in take (nat en) name)"

definition getPkgName :: "state \<Rightarrow> string \<Rightarrow> string" where
  "getPkgName st name =
     (let pos = strings_LastIndex name ''/'';
          name = (if pos \<noteq> -1 then drop (nat (pos + 1)) name else name);
          pos = strings_Index name ''.'';
          name = (if pos \<noteq> -1 then take (nat pos) name else name)
      in if name = ''main'' \<and> length (mainPrefixName st) > 0 then mainPrefixName st
         else name)"

text \<open>\<^verbatim>\<open>getPkgName\<close> of clog.go, which has no prefix name for the main package.\<close>

definition getPkgName_clog :: "string \<Rightarrow> string" where
  "getPkgName_clog name =
     (let pos = strings_LastIndex name ''/'';
          name = (if pos \<noteq> -1 then drop (nat (pos + 1)) name else name);
          pos = strings_Index name ''.'';
          name = (if pos \<noteq> -1 then take (nat pos) name else name)
      in name)"

text \<open>
  Each function below takes the stack of its caller (index 0 is the caller's frame)
  and pushes its own frame before it calls on.
\<close>

definition getQualifiedPaths :: "stack \<Rightarrow> string \<times> string" where
  "getQualifiedPaths stk =
     (case callerName (clog_frame ''getQualifiedPaths'' # stk) 3 of
        (pathQualifiedName, fileName, lineNum, ok) \<Rightarrow>
          if \<not> ok then ([], [])
          else (let funcPath = pathQualifiedName;
                    pkgPath = getPkgPath funcPath
                in (pkgPath, funcPath)))"

definition getPrefix :: "state \<Rightarrow> stack \<Rightarrow> (string \<Rightarrow> string) \<Rightarrow> string" where
  "getPrefix st stk colorFunc =
     (case callerName (clog_frame ''getPrefix'' # stk) 2 of
        (pathQualifiedName, fileName, lineNum, ok) \<Rightarrow>
          if \<not> ok then []
          else (let pkgName = getPkgName st pathQualifiedName;
                    prefix = colorFunc (pkgName @ '':'') @ '' ''
                in prefix))"

definition getPrefix_clog :: "stack \<Rightarrow> (string \<Rightarrow> string) \<Rightarrow> string" where
  "getPrefix_clog stk colorFunc =
     (case callerName (clog_frame ''getPrefix'' # stk) 2 of
        (pathQualifiedName, fileName, lineNum, ok) \<Rightarrow>
          if \<not> ok then []
          else (let pkgName = getPkgName_clog pathQualifiedName;
                    prefix = colorFunc (pkgName @ '':'') @ '' ''
                in prefix))"

definition getFileLine :: "extern \<Rightarrow> stack \<Rightarrow> string" where
  "getFileLine ex stk =
     (case callerName (clog_frame ''getFileLine'' # stk) 2 of
        (pathQualifiedName, file, line, ok) \<Rightarrow>
          if \<not> ok then []
          else (let s = file @ '':'' @ fmt_d line;
                    fileLine = term_WhiteBold ex (s @ '':'') @ '' ''
                in fileLine))"

section \<open>The suppression decision\<close>

text \<open>\<^verbatim>\<open>skip\<close> of the hierarchical variant: a match for the function path decides.\<close>

definition skip :: "state \<Rightarrow> stack \<Rightarrow> Level \<Rightarrow> bool" where
  "skip st stk cur =
     (case getQualifiedPaths (clog_frame ''skip'' # stk) of
        (pkgPath, funcPath) \<Rightarrow>
          (case PathLevel st funcPath of
             (funcLevel, True) \<Rightarrow> funcLevel > cur
           | (funcLevel, False) \<Rightarrow>
               (case PathLevel st pkgPath of
                  (pkgLevel, True) \<Rightarrow> pkgLevel > cur
                | (pkgLevel, False) \<Rightarrow> False)))"

text \<open>\<^verbatim>\<open>skip\<close> of clog.go: the same decision over the exact lookup.\<close>

definition skip_clog :: "state \<Rightarrow> stack \<Rightarrow> Level \<Rightarrow> bool" where
  "skip_clog st stk cur =
     (case getQualifiedPaths (clog_frame ''skip'' # stk) of
        (pkgPath, funcPath) \<Rightarrow>
          (case PathLevel_clog st funcPath of
             (funcLevel, True) \<Rightarrow> funcLevel > cur
           | (funcLevel, False) \<Rightarrow>
               (case PathLevel_clog st pkgPath of
                  (pkgLevel, True) \<Rightarrow> pkgLevel > cur
                | (pkgLevel, False) \<Rightarrow> False)))"

text \<open>
  \<^verbatim>\<open>skip\<close> of the earliest file: a function level that does not suppress falls through
  to the package level.
\<close>

definition skip_part000 :: "state \<Rightarrow> stack \<Rightarrow> Level \<Rightarrow> bool" where
  "skip_part000 st stk cur =
     (case getQualifiedPaths (clog_frame ''skip'' # stk) of
        (pkgPath, funcPath) \<Rightarrow>
          (case PathLevel_clog st funcPath of
             (funcLevel, ok) \<Rightarrow>
               if ok \<and> funcLevel > cur then True
               else (case PathLevel_clog st pkgPath of
                       (pkgLevel, ok) \<Rightarrow>
                         if ok \<and> pkgLevel > cur then True else False)))"

section \<open>Emission entry points (hierarchical variant)\<close>

text \<open>
  \<open>stk\<close> is the stack of the code that calls the entry point: index 0 is the frame of
  the calling function. The write lock is not modelled: one call runs at a time.
\<close>

subsection \<open>debug\<close>

definition Debug :: "extern \<Rightarrow> stack \<Rightarrow> any list \<Rightarrow> state \<Rightarrow> state" where
  "Debug ex stk args st =
     (let here = clog_frame ''Debug'' # stk in
      if skip st here LevelDebug then st
      else
         (let st = (if debugUsePrefix st
                    then (let prefix = getPrefix st here (term_MagentaBold ex)
                         in fmt_Fprint (debugOutput st) prefix st)
                    else st);
              st = fmt_Fprint (debugOutput st) (fmt_Sprint args) st;
              st = fmt_Fprint (debugOutput st) [CHR 0x0A] st
          in st))"

definition Debugf :: "extern \<Rightarrow> stack \<Rightarrow> string \<Rightarrow> any list \<Rightarrow> state \<Rightarrow> state" where
  "Debugf ex stk format args st =
     (let here = clog_frame ''Debugf'' # stk in
      if skip st here LevelDebug then st
      else
         (let st = (if debugUsePrefix st
                    then (let prefix = getPrefix st here (term_MagentaBold ex)
                         in fmt_Fprint (debugOutput st) prefix st)
                    else st);
              st = fmt_Fprint (debugOutput st) (fmt_Sprintf ex format args) st;
              st = fmt_Fprint (debugOutput st) [CHR 0x0A] st
          in st))"

definition Debugln :: "extern \<Rightarrow> stack \<Rightarrow> any list \<Rightarrow> state \<Rightarrow> state" where
  "Debugln ex stk args st =
     (let here = clog_frame ''Debugln'' # stk in
      if skip st here LevelDebug then st
      else
         (let st = (if debugUsePrefix st
                    then (let prefix = getPrefix st here (term_MagentaBold ex)
                         in fmt_Fprint (debugOutput st) prefix st)
                    else st);
              st = fmt_Fprint (debugOutput st) (fmt_Sprintln args) st
          in st))"

subsection \<open>info\<close>

definition Info :: "extern \<Rightarrow> stack \<Rightarrow> any list \<Rightarrow> state \<Rightarrow> state" where
  "Info ex stk args st =
     (let here = clog_frame ''Info'' # stk in
      if skip st here LevelInfo then st
      else
         (let st = (if infoUsePrefix st
                    then (let prefix = getPrefix st here (term_CyanBold ex)
                         in fmt_Fprint (infoOutput st) prefix st)
                    else st);
              st = fmt_Fprint (infoOutput st) (fmt_Sprint args) st;
              st = fmt_Fprint (infoOutput st) [CHR 0x0A] st
          in st))"

definition Infof :: "extern \<Rightarrow> stack \<Rightarrow> string \<Rightarrow> any list \<Rightarrow> state \<Rightarrow> state" where
  "Infof ex stk format args st =
     (let here = clog_frame ''Infof'' # stk in
      if skip st here LevelInfo then st
      else
         (let st = (if infoUsePrefix st
                    then (let prefix = getPrefix st here (term_CyanBold ex)
                         in fmt_Fprint (infoOutput st) prefix st)
                    else st);
              st = fmt_Fprint (infoOutput st) (fmt_Sprintf ex format args) st;
              st = fmt_Fprint (infoOutput st) [CHR 0x0A] st
          in st))"

definition Infoln :: "extern \<Rightarrow> stack \<Rightarrow> any list \<Rightarrow> state \<Rightarrow> state" where
  "Infoln ex stk args st =
     (let here = clog_frame ''Infoln'' # stk in
      if skip st here LevelInfo then st
      else
         (let st = (if infoUsePrefix st
                    then (let prefix = getPrefix st here (term_CyanBold ex)
                         in fmt_Fprint (infoOutput st) prefix st)
                    else st);
              st = fmt_Fprint (infoOutput st) (fmt_Sprintln args) st
          in st))"

subsection \<open>warning\<close>

definition Warn :: "extern \<Rightarrow> stack \<Rightarrow> any list \<Rightarrow> state \<Rightarrow> state" where
  "Warn ex stk args st =
     (let here = clog_frame ''Warn'' # stk in
      if skip st here LevelWarn then st
      else
         (let st = (if warnUsePrefix st
                    then (let prefix = getPrefix st here (term_RedBold ex);
                             prefix = prefix @ getFileLine ex here
                         in fmt_Fprint (warnOutput st) prefix st)
                    else st);
              st = fmt_Fprint (warnOutput st) (fmt_Sprint args) st;
              st = fmt_Fprint (warnOutput st) [CHR 0x0A] st
          in st))"

definition Warnf :: "extern \<Rightarrow> stack \<Rightarrow> string \<Rightarrow> any list \<Rightarrow> state \<Rightarrow> state" where
  "Warnf ex stk format args st =
     (let here = clog_frame ''Warnf'' # stk in
      if skip st here LevelWarn then st
      else
         (let st = (if warnUsePrefix st
                    then (let prefix = getPrefix st here (term_RedBold ex);
                             prefix = prefix @ getFileLine ex here
                         in fmt_Fprint (warnOutput st) prefix st)
                    else st);
              st = fmt_Fprint (warnOutput st) (fmt_Sprintf ex format args) st;
              st = fmt_Fprint (warnOutput st) [CHR 0x0A] st
          in st))"

definition Warnln :: "extern \<Rightarrow> stack \<Rightarrow> any list \<Rightarrow> state \<Rightarrow> state" where
  "Warnln ex stk args st =
     (let here = clog_frame ''Warnln'' # stk in
      if skip st here LevelWarn then st
      else
         (let st = (if warnUsePrefix st
                    then (let prefix = getPrefix st here (term_RedBold ex);
                             prefix = prefix @ getFileLine ex here
                         in fmt_Fprint (warnOutput st) prefix st)
                    else st);
              st = fmt_Fprint (warnOutput st) (fmt_Sprintln args) st
          in st))"

subsection \<open>error\<close>

definition Fatal :: "extern \<Rightarrow> stack \<Rightarrow> any list \<Rightarrow> state \<Rightarrow> state" where
  "Fatal ex stk args st =
     (let here = clog_frame ''Fatal'' # stk in
      if skip st here LevelError then st
      else
         (let st = (if errorUsePrefix st
                    then (let prefix = getPrefix st here (term_RedBold ex);
                             prefix = prefix @ getFileLine ex here
                         in fmt_Fprint (errorOutput st) prefix st)
                    else st);
              st = fmt_Fprint (errorOutput st) (fmt_Sprint args) st;
              st = fmt_Fprint (errorOutput st) [CHR 0x0A] st;
              st = os_Exit 1 st
          in st))"

definition Fatalf :: "extern \<Rightarrow> stack \<Rightarrow> string \<Rightarrow> any list \<Rightarrow> state \<Rightarrow> state" where
  "Fatalf ex stk format args st =
     (let here = clog_frame ''Fatalf'' # stk in
      if skip st here LevelError then st
      else
         (let st = (if errorUsePrefix st
                    then (let prefix = getPrefix st here (term_RedBold ex);
                             prefix = prefix @ getFileLine ex here
                         in fmt_Fprint (errorOutput st) prefix st)
                    else st);
              st = fmt_Fprint (errorOutput st) (fmt_Sprintf ex format args) st;
              st = fmt_Fprint (errorOutput st) [CHR 0x0A] st;
              st = os_Exit 1 st
          in st))"

definition Fatalln :: "extern \<Rightarrow> stack \<Rightarrow> any list \<Rightarrow> state \<Rightarrow> state" where
  "Fatalln ex stk args st =
     (let here = clog_frame ''Fatalln'' # stk in
      if skip st here LevelError then st
      else
         (let st = (if errorUsePrefix st
                    then (let prefix = getPrefix st here (term_RedBold ex);
                             prefix = prefix @ getFileLine ex here
                         in fmt_Fprint (errorOutput st) prefix st)
                    else st);
              st = fmt_Fprint (errorOutput st) (fmt_Sprintln args) st;
              st = os_Exit 1 st
          in st))"

section \<open>The fatal entry points of clog.go\<close>

text \<open>clog.go has no prefix switches: the prefix is always written.\<close>

definition Fatal_clog :: "extern \<Rightarrow> stack \<Rightarrow> any list \<Rightarrow> state \<Rightarrow> state" where
  "Fatal_clog ex stk args st =
     (let here = clog_frame ''Fatal'' # stk in
      if skip_clog st here LevelError then st
      else
         (let prefix = getPrefix_clog here (term_RedBold ex);
              prefix = prefix @ getFileLine ex here;
              st = fmt_Fprint (errorOutput st) prefix st;
              st = fmt_Fprint (errorOutput st) (fmt_Sprint args) st;
              st = fmt_Fprint (errorOutput st) [CHR 0x0A] st;
              st = os_Exit 1 st
          in st))"

definition Fatalf_clog :: "extern \<Rightarrow> stack \<Rightarrow> string \<Rightarrow> any list \<Rightarrow> state \<Rightarrow> state" where
  "Fatalf_clog ex stk format args st =
     (let here = clog_frame ''Fatalf'' # stk in
      if skip_clog st here LevelError then st
      else
         (let prefix = getPrefix_clog here (term_RedBold ex);
              prefix = prefix @ getFileLine ex here;
              st = fmt_Fprint (errorOutput st) prefix st;
              st = fmt_Fprint (errorOutput st) (fmt_Sprintf ex format args) st;
              st = fmt_Fprint (errorOutput st) [CHR 0x0A] st;
              st = os_Exit 1 st
          in st))"

definition Fatalln_clog :: "extern \<Rightarrow> stack \<Rightarrow> any list \<Rightarrow> state \<Rightarrow> state" where
  "Fatalln_clog ex stk args st =
     (let here = clog_frame ''Fatalln'' # stk in
      if skip_clog st here LevelError then st
      else
         (let prefix = getPrefix_clog here (term_RedBold ex);
              prefix = prefix @ getFileLine ex here;
              st = fmt_Fprint (errorOutput st) prefix st;
              st = fmt_Fprint (errorOutput st) (fmt_Sprintln args) st;
              st = os_Exit 1 st
          in st))"

section \<open>Reference notions for the statements\<close>

text \<open>
  The package name and package path of a path-qualified function name, said with the
  split at the last separator: the final segment up to its first period, and the
  name up to that period.
\<close>

definition derived_pkg_name :: "string \<Rightarrow> string" where
  "derived_pkg_name name = takeWhile (\<lambda>c. c \<noteq> CHR ''.'') (final_segment name)"

definition spec_pkg_path :: "string \<Rightarrow> string" where
  "spec_pkg_path F = leading_dirs F @ takeWhile (\<lambda>c. c \<noteq> CHR ''.'') (final_segment F)"

text \<open>A call site and a registry used as concrete instances below.\<close>

definition worker_frame :: "frame option" where
  "worker_frame = Some \<lparr> fn_name = ''app/worker.Process'', fn_file = ''worker.go'', fn_line = 17 \<rparr>"

definition split_levels :: state where
  "split_levels =
     SetPathLevel ''app/worker'' LevelError (SetPathLevel ''app/worker.Process'' LevelDebug init_state)"

text \<open>
  Paths as Go writes them: segments joined by single separators, where a plain
  segment is not empty, holds no separator and is neither \<^verbatim>\<open>.\<close> nor \<^verbatim>\<open>..\<close>. Import
  paths and path-qualified function names are of this form.
\<close>

fun path_join :: "string list \<Rightarrow> string" where
  "path_join [] = []"
| "path_join [s] = s"
| "path_join (s # t # ts) = s @ ''/'' @ path_join (t # ts)"




definition func_frame :: "string \<Rightarrow> frame option" where
  "func_frame name = Some \<lparr> fn_name = name, fn_file = ''f.go'', fn_line = 1 \<rparr>"

text \<open>
  The twelve entry points by tier and calling convention, so that a statement can
  speak of all of them: \<open>emit\<close> calls the entry point, and the functions after it name
  its frame, its severity, its sink, its prefix switch and the prefix it renders.
\<close>

datatype tier = Debug_tier | Info_tier | Warn_tier | Error_tier

datatype convention = Print | Printf | Println

fun emit :: "tier \<Rightarrow> convention \<Rightarrow> extern \<Rightarrow> stack \<Rightarrow> string \<Rightarrow> any list \<Rightarrow> state \<Rightarrow> state" where
  "emit Debug_tier Print ex stk format args st = Debug ex stk args st"
| "emit Debug_tier Printf ex stk format args st = Debugf ex stk format args st"
| "emit Debug_tier Println ex stk format args st = Debugln ex stk args st"
| "emit Info_tier Print ex stk format args st = Info ex stk args st"
| "emit Info_tier Printf ex stk format args st = Infof ex stk format args st"
| "emit Info_tier Println ex stk format args st = Infoln ex stk args st"
| "emit Warn_tier Print ex stk format args st = Warn ex stk args st"
| "emit Warn_tier Printf ex stk format args st = Warnf ex stk format args st"
| "emit Warn_tier Println ex stk format args st = Warnln ex stk args st"
| "emit Error_tier Print ex stk format args st = Fatal ex stk args st"
| "emit Error_tier Printf ex stk format args st = Fatalf ex stk format args st"
| "emit Error_tier Println ex stk format args st = Fatalln ex stk args st"

fun entry_name :: "tier \<Rightarrow> convention \<Rightarrow> string" where
  "entry_name Debug_tier Print = ''Debug''"
| "entry_name Debug_tier Printf = ''Debugf''"
| "entry_name Debug_tier Println = ''Debugln''"
| "entry_name Info_tier Print = ''Info''"
| "entry_name Info_tier Printf = ''Infof''"
| "entry_name Info_tier Println = ''Infoln''"
| "entry_name Warn_tier Print = ''Warn''"
| "entry_name Warn_tier Printf = ''Warnf''"
| "entry_name Warn_tier Println = ''Warnln''"
| "entry_name Error_tier Print = ''Fatal''"
| "entry_name Error_tier Printf = ''Fatalf''"
| "entry_name Error_tier Println = ''Fatalln''"

fun tier_level :: "tier \<Rightarrow> Level" where
  "tier_level Debug_tier = LevelDebug"
| "tier_level Info_tier = LevelInfo"
| "tier_level Warn_tier = LevelWarn"
| "tier_level Error_tier = LevelError"

fun tier_output :: "tier \<Rightarrow> state \<Rightarrow> writer" where
  "tier_output Debug_tier st = debugOutput st"
| "tier_output Info_tier st = infoOutput st"
| "tier_output Warn_tier st = warnOutput st"
| "tier_output Error_tier st = errorOutput st"

fun tier_usePrefix :: "tier \<Rightarrow> state \<Rightarrow> bool" where
  "tier_usePrefix Debug_tier st = debugUsePrefix st"
| "tier_usePrefix Info_tier st = infoUsePrefix st"
| "tier_usePrefix Warn_tier st = warnUsePrefix st"
| "tier_usePrefix Error_tier st = errorUsePrefix st"

fun tier_prefix :: "tier \<Rightarrow> extern \<Rightarrow> state \<Rightarrow> stack \<Rightarrow> string" where
  "tier_prefix Debug_tier ex st here = getPrefix st here (term_MagentaBold ex)"
| "tier_prefix Info_tier ex st here = getPrefix st here (term_CyanBold ex)"
| "tier_prefix Warn_tier ex st here = getPrefix st here (term_RedBold ex) @ getFileLine ex here"
| "tier_prefix Error_tier ex st here = getPrefix st here (term_RedBold ex) @ getFileLine ex here"

text \<open>
  The writes of the message body, one chunk per \<^verbatim>\<open>Write\<close>: the body and a newline, or
  for the line convention the body that ends in its newline. The write sequence of a
  call is the prefix, when the tier's switch is on, and then the body.
\<close>

fun body_chunks :: "convention \<Rightarrow> extern \<Rightarrow> string \<Rightarrow> any list \<Rightarrow> string list" where
  "body_chunks Print ex format args = [fmt_Sprint args, [CHR 0x0A]]"
| "body_chunks Printf ex format args = [fmt_Sprintf ex format args, [CHR 0x0A]]"
| "body_chunks Println ex format args = [fmt_Sprintln args]"

definition write_sequence ::
    "tier \<Rightarrow> convention \<Rightarrow> extern \<Rightarrow> stack \<Rightarrow> string \<Rightarrow> any list \<Rightarrow> state \<Rightarrow> string list" where
  "write_sequence tier conv ex stk format args st =
     (if tier_usePrefix tier st
      then [tier_prefix tier ex st (clog_frame (entry_name tier conv) # stk)] else [])
     @ body_chunks conv ex format args"

definition write_sequence_clog ::
    "convention \<Rightarrow> extern \<Rightarrow> stack \<Rightarrow> string \<Rightarrow> any list \<Rightarrow> string list" where
  "write_sequence_clog conv ex here format args =
     [getPrefix_clog here (term_RedBold ex) @ getFileLine ex here] @ body_chunks conv ex format args"

text \<open>
  The state after an emitting call: the chunks are appended to the tier's sink, and
  for the error tier the process has exited with status 1. Nothing else changes.
\<close>

definition emitted ::
    "tier \<Rightarrow> string list \<Rightarrow> state \<Rightarrow> state" where
  "emitted tier chunks st =
     (let st' = st\<lparr> written := (written st)(tier_output tier st := written st (tier_output tier st) @ chunks) \<rparr>
      in if tier = Error_tier then st'\<lparr> exited := Some 1 \<rparr> else st')"

text \<open>
  The override that applies to a call site with package path \<open>P\<close> and function path \<open>F\<close>:
  the match for \<open>F\<close>, else the match for \<open>P\<close>, else none.
\<close>

definition effective_override :: "state \<Rightarrow> string \<Rightarrow> string \<Rightarrow> Level option" where
  "effective_override st P F =
     (case PathLevel st F of
        (t, True) \<Rightarrow> Some t
      | (t, False) \<Rightarrow> (case PathLevel st P of (tp, True) \<Rightarrow> Some tp | (tp, False) \<Rightarrow> None))"

text \<open>
  Stack inspection fails for the caller when the stack has no frame for it, or when
  its frame does not resolve to a function.
\<close>

definition unresolved :: "stack \<Rightarrow> bool" where
  "unresolved stk = (case stk of [] \<Rightarrow> True | fr # rest \<Rightarrow> fr = None)"

text \<open>
  Stand-ins for the external functions in the concrete instances: the colour
  functions leave the text as it is and \<^verbatim>\<open>Sprintf\<close> returns the template, as it does for
  a template with no verbs.
\<close>

definition stub_extern :: extern where
  "stub_extern =
     \<lparr> fmt_Sprintf = (\<lambda>format args. format),
       term_MagentaBold = (\<lambda>s. s), term_CyanBold = (\<lambda>s. s),
       term_RedBold = (\<lambda>s. s), term_WhiteBold = (\<lambda>s. s) \<rparr>"

definition root_level :: state where
  "root_level = SetPathLevel ''.'' LevelError init_state"

definition worker_warn :: state where
  "worker_warn = SetPathLevel ''app/worker'' LevelWarn init_state"

definition worker_silent :: state where
  "worker_silent = SetPathLevel ''app/worker'' (LevelError + 1) init_state"

section \<open>Facts about the helper functions\<close>

lemma Index_char:
  "strings_Index s [c] = (if c \<in> set s then int (length (takeWhile (\<lambda>x. x \<noteq> c) s)) else -1)"
  by (induction s) (auto simp: Let_def)

lemma LastIndex_char:
  "strings_LastIndex s [c] =
     (if c \<in> set s then int (length (dropWhile (\<lambda>x. x \<noteq> c) (rev s))) - 1 else -1)"
  by (induction s) (auto simp: Let_def dropWhile_append)

lemma takeWhile_absent: "c \<notin> set xs \<Longrightarrow> takeWhile (\<lambda>x. x \<noteq> c) xs = xs"
  by (induction xs) auto

lemma drop_leading_dirs: "drop (length (leading_dirs name)) name = final_segment name"
  by (metis append_eq_conv_conj split_at_last_slash)

lemma take_leading_dirs:
  "take (length (leading_dirs name) + k) name = leading_dirs name @ take k (final_segment name)"
  by (metis split_at_last_slash take_add drop_leading_dirs append_eq_conv_conj)

lemma after_last_slash:
  "(if strings_LastIndex name ''/'' \<noteq> -1 then strings_LastIndex name ''/'' + 1 else 0)
     = int (length (leading_dirs name))"
  by (auto simp: LastIndex_char leading_dirs_def dropWhile_eq_Nil_conv)

lemma getPkgPath_char:
  "getPkgPath name = leading_dirs name @
     (if CHR ''.'' \<in> set (final_segment name)
      then takeWhile (\<lambda>c. c \<noteq> CHR ''.'') (final_segment name) else [])"
proof -
  let ?seg = "final_segment name"
  have "getPkgPath name =
      take (nat (if strings_Index ?seg ''.'' \<noteq> -1
                 then int (length (leading_dirs name)) + strings_Index ?seg ''.''
                 else int (length (leading_dirs name)))) name"
    unfolding getPkgPath_def Let_def after_last_slash by (simp add: drop_leading_dirs)
  also have "\<dots> = leading_dirs name @
     (if CHR ''.'' \<in> set ?seg then takeWhile (\<lambda>c. c \<noteq> CHR ''.'') ?seg else [])"
    using take_leading_dirs[of name "length (takeWhile (\<lambda>c. c \<noteq> CHR ''.'') ?seg)"]
          take_leading_dirs[of name 0]
    by (simp add: Index_char nat_add_distrib takeWhile_eq_take[symmetric])
  finally show ?thesis .
qed

lemma after_last_slash_drop:
  "(if strings_LastIndex name ''/'' \<noteq> -1 then drop (nat (strings_LastIndex name ''/'' + 1)) name else name)
     = final_segment name"
proof (cases "CHR ''/'' \<in> set name")
  case True
  then have "strings_LastIndex name ''/'' \<noteq> -1"
    and "nat (strings_LastIndex name ''/'' + 1) = length (leading_dirs name)"
    by (simp_all add: LastIndex_char leading_dirs_def)
  then show ?thesis by (simp add: drop_leading_dirs)
next
  case False
  then have "final_segment name = name"
    by (simp add: final_segment_def takeWhile_absent)
  with False show ?thesis by (simp add: LastIndex_char)
qed

lemma getPkgName_clog_char: "getPkgName_clog name = derived_pkg_name name"
  unfolding getPkgName_clog_def Let_def after_last_slash_drop derived_pkg_name_def
  by (simp add: Index_char takeWhile_eq_take[symmetric] takeWhile_absent)

lemma getPkgName_char:
  "getPkgName st name =
     (if derived_pkg_name name = ''main'' \<and> mainPrefixName st \<noteq> [] then mainPrefixName st
      else derived_pkg_name name)"
proof -
  have "(let pos = strings_Index (final_segment name) ''.'' in
          if pos \<noteq> -1 then take (nat pos) (final_segment name) else final_segment name)
        = derived_pkg_name name"
    unfolding Let_def derived_pkg_name_def
    by (simp add: Index_char takeWhile_eq_take[symmetric] takeWhile_absent)
  then show ?thesis
    unfolding getPkgName_def Let_def after_last_slash_drop by simp
qed

lemma getPkgPath_no_period:
  "CHR ''.'' \<notin> set (final_segment F) \<Longrightarrow> getPkgPath F = leading_dirs F"
  by (simp add: getPkgPath_char)


section \<open>Facts about the registry and the suppression decision\<close>

lemma PathLevel_hit: "activeLevel st path = Some t \<Longrightarrow> PathLevel st path = (t, True)"
  by (subst PathLevel.simps) simp

lemma PathLevel_ascend:
  "activeLevel st path = None \<Longrightarrow> filepath_Dir path \<noteq> path \<Longrightarrow>
     PathLevel st path = PathLevel st (filepath_Dir path)"
  by (subst PathLevel.simps) (simp add: filepath_Dir_nonempty)

lemma PathLevel_root:
  "activeLevel st path = None \<Longrightarrow> filepath_Dir path = path \<Longrightarrow> PathLevel st path = (0, False)"
  by (subst PathLevel.simps) simp

lemma skip_paths:
  "getQualifiedPaths (clog_frame ''skip'' # stk) = (P, F) \<Longrightarrow>
     skip st stk cur =
       (case PathLevel st F of
          (t, True) \<Rightarrow> t > cur
        | (t, False) \<Rightarrow> (case PathLevel st P of (tp, True) \<Rightarrow> tp > cur | (tp, False) \<Rightarrow> False))"
  by (simp add: skip_def)

lemma skip_clog_paths:
  "getQualifiedPaths (clog_frame ''skip'' # stk) = (P, F) \<Longrightarrow>
     skip_clog st stk cur =
       (case PathLevel_clog st F of
          (t, True) \<Rightarrow> t > cur
        | (t, False) \<Rightarrow> (case PathLevel_clog st P of (tp, True) \<Rightarrow> tp > cur | (tp, False) \<Rightarrow> False))"
  by (simp add: skip_clog_def)

lemma skip_part000_paths:
  "getQualifiedPaths (clog_frame ''skip'' # stk) = (P, F) \<Longrightarrow>
     skip_part000 st stk cur =
       ((snd (PathLevel_clog st F) \<and> fst (PathLevel_clog st F) > cur)
        \<or> (snd (PathLevel_clog st P) \<and> fst (PathLevel_clog st P) > cur))"
  by (auto simp: skip_part000_def split: prod.splits)

lemma getQualifiedPaths_resolved:
  "getQualifiedPaths (s # e # Some caller # rest) = (getPkgPath (fn_name caller), fn_name caller)"
  by (simp add: getQualifiedPaths_def callerName_def Let_def)

lemma getQualifiedPaths_unresolved:
  "getQualifiedPaths (s # e # None # rest) = ([], [])"
  "getQualifiedPaths [s, e] = ([], [])"
  by (simp_all add: getQualifiedPaths_def callerName_def)

lemma worker_paths:
  "getQualifiedPaths [s, e, worker_frame] = (''app/worker'', ''app/worker.Process'')"
  by (simp add: worker_frame_def getQualifiedPaths_resolved getPkgPath_char
                leading_dirs_def final_segment_def)

lemma split_levels_lookup:
  "PathLevel split_levels ''app/worker.Process'' = (LevelDebug, True)"
  "PathLevel split_levels ''app/worker'' = (LevelError, True)"
  "PathLevel_clog split_levels ''app/worker.Process'' = (LevelDebug, True)"
  "PathLevel_clog split_levels ''app/worker'' = (LevelError, True)"
  by (simp_all add: split_levels_def SetPathLevel_def PathLevel_hit PathLevel_clog_def)

section \<open>Facts about the hierarchical lookup\<close>




lemma path_join_snoc:
  "segs \<noteq> [] \<Longrightarrow> path_join (segs @ [s]) = path_join segs @ ''/'' @ s"
  by (induction segs rule: path_join.induct) simp_all







lemma filepath_Dir_dot: "filepath_Dir ''.'' = ''.''"
  by (simp add: filepath_Dir_no_slash)


lemma ascent_reaches_root:
  "\<exists>n. (filepath_Dir ^^ Suc n) path = (filepath_Dir ^^ n) path"
proof (induction path rule: measure_induct_rule[of ascent_measure])
  case (less path)
  show ?case
  proof (cases "filepath_Dir path = path")
    case True
    then have "(filepath_Dir ^^ Suc 0) path = (filepath_Dir ^^ 0) path" by simp
    then show ?thesis by blast
  next
    case False
    from less[OF ascent_measure_Dir[OF False]] obtain n where
      "(filepath_Dir ^^ Suc n) (filepath_Dir path) = (filepath_Dir ^^ n) (filepath_Dir path)"
      by blast
    then have "(filepath_Dir ^^ Suc (Suc n)) path = (filepath_Dir ^^ Suc n) path"
      by (simp only: funpow_Suc_right o_apply)
    then show ?thesis by blast
  qed
qed

lemma PathLevel_loop_eq: "PathLevel_loop st path = Some (PathLevel st path)"
proof (induction st path rule: PathLevel.induct)
  case (1 st path)
  show ?case
  proof (cases "activeLevel st path")
    case (Some level)
    then show ?thesis
      by (subst PathLevel_loop.simps, subst PathLevel.simps) simp
  next
    case None
    show ?thesis
    proof (cases "length (filepath_Dir path) = 0 \<or> filepath_Dir path = path")
      case True
      then show ?thesis using None
        by (subst PathLevel_loop.simps, subst PathLevel.simps) auto
    next
      case False
      have "PathLevel_loop st path = PathLevel_loop st (filepath_Dir path)"
        using None False by (subst PathLevel_loop.simps) auto
      moreover have "PathLevel st path = PathLevel st (filepath_Dir path)"
        using None False by (subst PathLevel.simps) auto
      ultimately show ?thesis using 1[OF None refl False] by simp
    qed
  qed
qed


lemma func_frame_paths:
  "getQualifiedPaths [s, e, func_frame name] = (getPkgPath name, name)"
  by (simp add: func_frame_def getQualifiedPaths_resolved)


text \<open>
  The ascent from a function path leaves out the package path: the parent of
  \<^verbatim>\<open>a/b/c.Func\<close> is \<^verbatim>\<open>a/b\<close>. A threshold on the directory \<^verbatim>\<open>a/b\<close> is therefore found for the
  function path, and decides, before a threshold on the package \<^verbatim>\<open>a/b/c\<close> is read.
\<close>

lemma directory_level_decides_before_package:
  "skip (SetPathLevel ''a/b/c'' LevelDebug (SetPathLevel ''a/b'' LevelError init_state))
        [e, func_frame ''a/b/c.Func''] LevelInfo"
proof -
  let ?st = "SetPathLevel ''a/b/c'' LevelDebug (SetPathLevel ''a/b'' LevelError init_state)"
  have d: "filepath_Dir ''a/b/c.Func'' = ''a/b''"
    by (simp add: filepath_Dir_leading leading_dirs_def filepath_Clean_def)
  have "activeLevel ?st ''a/b/c.Func'' = None" "activeLevel ?st ''a/b'' = Some LevelError"
    by (simp_all add: SetPathLevel_def init_state_def)
  then have "PathLevel ?st ''a/b/c.Func'' = (LevelError, True)"
    using PathLevel_ascend[of ?st "''a/b/c.Func''"] PathLevel_hit[of ?st "''a/b''" LevelError] d
    by simp
  then show ?thesis
    by (simp add: skip_paths[OF func_frame_paths] LevelError_def LevelInfo_def)
qed

text \<open>
  The function path of a call site in the package \<open>p\<close>: the last segment of \<open>p\<close>, a
  period and the function name. Its package path is \<open>p\<close> and its parent is the parent
  of \<open>p\<close>.
\<close>

lemma path_join_butlast:
  "segs \<noteq> [] \<Longrightarrow> path_join (butlast segs @ [last segs]) = path_join segs"
  by simp



lemma path_join_last_neq:
  "x \<noteq> y \<Longrightarrow> path_join (pre @ [x]) \<noteq> path_join (pre @ [y])"
  by (cases "pre = []") (simp_all add: path_join_snoc)






section \<open>Facts about the entry points\<close>

lemma emit_char:
  "emit tier conv ex stk format args st =
     (if skip st (clog_frame (entry_name tier conv) # stk) (tier_level tier) then st
      else emitted tier (write_sequence tier conv ex stk format args st) st)"
  by (cases tier; cases conv)
     (simp_all add: Debug_def Debugf_def Debugln_def Info_def Infof_def Infoln_def
        Warn_def Warnf_def Warnln_def Fatal_def Fatalf_def Fatalln_def
        emitted_def write_sequence_def Let_def fmt_Fprint_def os_Exit_def)

lemma skip_effective:
  "getQualifiedPaths (clog_frame ''skip'' # stk) = (P, F) \<Longrightarrow>
     skip st stk cur = (case effective_override st P F of Some t \<Rightarrow> t > cur | None \<Rightarrow> False)"
  by (auto simp: skip_paths effective_override_def split: prod.splits bool.splits)

lemma doPrintln_last: "doPrintln n a \<noteq> [] \<and> last (doPrintln n a) = CHR 0x0A"
  by (induction a arbitrary: n) auto

lemma body_chunks_newline:
  "concat (body_chunks conv ex format args) \<noteq> []
   \<and> last (concat (body_chunks conv ex format args)) = CHR 0x0A"
  using doPrintln_last[of 0 args] by (cases conv) (simp_all add: fmt_Sprintln_def)

lemma write_sequence_newline:
  "last (concat (write_sequence tier conv ex stk format args st)) = CHR 0x0A"
  using body_chunks_newline[of conv ex format args]
  by (simp add: write_sequence_def)

lemma written_emitted:
  "written (emitted tier chunks st)
     = (written st)(tier_output tier st := written st (tier_output tier st) @ chunks)"
  by (simp add: emitted_def Let_def)

lemma exited_emitted:
  "exited (emitted tier chunks st) = (if tier = Error_tier then Some 1 else exited st)"
  by (simp add: emitted_def Let_def)

lemma PathLevel_empty:
  "PathLevel st [] =
     (case activeLevel st [] of
        Some t \<Rightarrow> (t, True)
      | None \<Rightarrow> (case activeLevel st ''.'' of Some t \<Rightarrow> (t, True) | None \<Rightarrow> (0, False)))"
proof -
  have d: "filepath_Dir [] = ''.''" by (simp add: filepath_Dir_no_slash)
  show ?thesis
  proof (cases "activeLevel st []")
    case None
    then have "PathLevel st [] = PathLevel st ''.''"
      using PathLevel_ascend[of st "[]"] d by simp
    then show ?thesis using None PathLevel_hit[of st "''.''"] PathLevel_root[of st "''.''"] filepath_Dir_dot
      by (cases "activeLevel st ''.''") auto
  next
    case (Some t)
    then show ?thesis by (simp add: PathLevel_hit)
  qed
qed

lemma callerName_fails:
  "callerName (g # s # e # stk) 3 = (n, f, l, False) \<Longrightarrow> unresolved stk"
  by (cases stk) (auto simp: unresolved_def callerName_def split: option.splits)

lemma unresolved_paths:
  "unresolved stk \<Longrightarrow> getQualifiedPaths (s # e # stk) = ([], [])"
  by (cases stk) (auto simp: unresolved_def getQualifiedPaths_def callerName_def)

lemma unresolved_prefix:
  "unresolved stk \<Longrightarrow> getPrefix st (e # stk) colorFunc = [] \<and> getFileLine ex (e # stk) = []"
  by (cases stk) (auto simp: unresolved_def getPrefix_def getFileLine_def callerName_def)

lemma unresolved_skip:
  assumes "unresolved stk"
  shows "skip st (e # stk) cur =
     (case activeLevel st [] of
        Some t \<Rightarrow> t > cur
      | None \<Rightarrow> (case activeLevel st ''.'' of Some t \<Rightarrow> t > cur | None \<Rightarrow> False))"
  using skip_paths[OF unresolved_paths[OF assms, of "clog_frame ''skip''" e], where st = st and cur = cur]
  by (simp add: PathLevel_empty split: option.splits)

lemma Fatal_clog_char:
  "Fatal_clog ex stk args st =
     (if skip_clog st (clog_frame ''Fatal'' # stk) LevelError then st
      else emitted Error_tier (write_sequence_clog Print ex (clog_frame ''Fatal'' # stk) [] args) st)"
  "Fatalf_clog ex stk format args st =
     (if skip_clog st (clog_frame ''Fatalf'' # stk) LevelError then st
      else emitted Error_tier (write_sequence_clog Printf ex (clog_frame ''Fatalf'' # stk) format args) st)"
  "Fatalln_clog ex stk args st =
     (if skip_clog st (clog_frame ''Fatalln'' # stk) LevelError then st
      else emitted Error_tier (write_sequence_clog Println ex (clog_frame ''Fatalln'' # stk) [] args) st)"
  by (simp_all add: Fatal_clog_def Fatalf_clog_def Fatalln_clog_def emitted_def
        write_sequence_clog_def Let_def fmt_Fprint_def os_Exit_def)

lemma config_keeps_running:
  "exited (SetPathLevel p l st) = exited st"
  "exited (SetMainPrefixName n st) = exited st"
  "exited (SetDebugOutput w st) = exited st"
  "exited (SetDebugPrefix b st) = exited st"
  "exited (SetInfoOutput w st) = exited st"
  "exited (SetInfoPrefix b st) = exited st"
  "exited (SetWarnOutput w st) = exited st"
  "exited (SetWarnPrefix b st) = exited st"
  "exited (SetErrorOutput w st) = exited st"
  "exited (SetErrorPrefix b st) = exited st"
  by (simp_all add: SetPathLevel_def SetMainPrefixName_def SetDebugOutput_def SetDebugPrefix_def
        SetInfoOutput_def SetInfoPrefix_def SetWarnOutput_def SetWarnPrefix_def
        SetErrorOutput_def SetErrorPrefix_def)

lemma fmt_d_17: "fmt_d 17 = ''17''"
  by code_simp

lemma worker_tags:
  "getPrefix st [e, worker_frame] colorFunc = colorFunc ''worker:'' @ '' ''"
  "getPrefix_clog [e, worker_frame] colorFunc = colorFunc ''worker:'' @ '' ''"
  "getFileLine ex [e, worker_frame] = term_WhiteBold ex ''worker.go:17:'' @ '' ''"
  by (simp_all add: getPrefix_def getPrefix_clog_def getFileLine_def callerName_def worker_frame_def
        getPkgName_char getPkgName_clog_char derived_pkg_name_def final_segment_def fmt_d_17 Let_def)

lemma worker_override:
  "effective_override worker_warn ''app/worker'' ''app/worker.Process'' = Some LevelWarn"
  "effective_override init_state ''app/worker'' ''app/worker.Process'' = None"
proof -
  have d1: "filepath_Dir ''app/worker.Process'' = ''app''"
    by (simp add: filepath_Dir_leading leading_dirs_def filepath_Clean_def)
  have d1': "filepath_Dir ''app/worker'' = ''app''"
    by (simp add: filepath_Dir_leading leading_dirs_def filepath_Clean_def)
  have d2: "filepath_Dir ''app'' = ''.''" by (simp add: filepath_Dir_no_slash)
  have f: "PathLevel worker_warn ''app/worker.Process'' = (0, False)"
    by (simp add: PathLevel.simps[of _ "''app/worker.Process''"] PathLevel.simps[of _ "''app''"]
          PathLevel.simps[of _ "''.''"] d1 d2 filepath_Dir_dot worker_warn_def SetPathLevel_def
          init_state_def)
  have p: "PathLevel worker_warn ''app/worker'' = (LevelWarn, True)"
    by (simp add: PathLevel_hit worker_warn_def SetPathLevel_def)
  show "effective_override worker_warn ''app/worker'' ''app/worker.Process'' = Some LevelWarn"
    by (simp add: effective_override_def f p)
  have f0: "PathLevel init_state ''app/worker.Process'' = (0, False)"
    by (simp add: PathLevel.simps[of _ "''app/worker.Process''"] PathLevel.simps[of _ "''app''"]
          PathLevel.simps[of _ "''.''"] d1 d2 filepath_Dir_dot init_state_def)
  have p0: "PathLevel init_state ''app/worker'' = (0, False)"
    by (simp add: PathLevel.simps[of _ "''app/worker''"] PathLevel.simps[of _ "''app''"]
          PathLevel.simps[of _ "''.''"] d1' d2 filepath_Dir_dot init_state_def)
  show "effective_override init_state ''app/worker'' ''app/worker.Process'' = None"
    by (simp add: effective_override_def f0 p0)
qed

lemma worker_skip:
  "\<not> skip init_state [e, worker_frame] cur"
  "skip worker_silent [e, worker_frame] LevelError"
  "\<not> skip_clog init_state [e, worker_frame] cur"
  "skip_clog worker_silent [e, worker_frame] LevelError"
proof -
  have d1: "filepath_Dir ''app/worker.Process'' = ''app''"
    by (simp add: filepath_Dir_leading leading_dirs_def filepath_Clean_def)
  have d2: "filepath_Dir ''app'' = ''.''" by (simp add: filepath_Dir_no_slash)
  have f: "PathLevel worker_silent ''app/worker.Process'' = (0, False)"
    by (simp add: PathLevel.simps[of _ "''app/worker.Process''"] PathLevel.simps[of _ "''app''"]
          PathLevel.simps[of _ "''.''"] d1 d2 filepath_Dir_dot worker_silent_def SetPathLevel_def
          init_state_def)
  have p: "PathLevel worker_silent ''app/worker'' = (LevelError + 1, True)"
    by (simp add: PathLevel_hit worker_silent_def SetPathLevel_def)
  show "\<not> skip init_state [e, worker_frame] cur"
    using skip_effective[OF worker_paths, where st = init_state and cur = cur] worker_override(2)
    by simp
  show "skip worker_silent [e, worker_frame] LevelError"
    by (simp add: skip_paths[OF worker_paths] f p)
  show "\<not> skip_clog init_state [e, worker_frame] cur"
    by (simp add: skip_clog_paths[OF worker_paths] PathLevel_clog_def init_state_def)
  show "skip_clog worker_silent [e, worker_frame] LevelError"
    by (simp add: skip_clog_paths[OF worker_paths] PathLevel_clog_def worker_silent_def
          SetPathLevel_def init_state_def)
qed

section \<open>Claims\<close>

text \<open>
  C1 (as amended). In \<^verbatim>\<open>skip\<close> of clog.go and of the hierarchical file, a match for the
  caller's function path \<open>F\<close> decides alone: the call is suppressed iff that threshold
  is greater than the severity, whatever the registry holds for the package path \<open>P\<close>;
  \<open>P\<close> is looked up only when \<open>F\<close> has no match. In \<^verbatim>\<open>skip\<close> of the earliest file the
  function level decides only when it suppresses: the call is suppressed iff the
  threshold for \<open>F\<close> or the threshold for \<open>P\<close> is greater than the severity.
\<close>

theorem skip_function_level_first:
  assumes "getQualifiedPaths (clog_frame ''skip'' # stk) = (P, F)"
  shows "(PathLevel st F = (t, True) \<longrightarrow> skip st stk s = (t > s))
       \<and> (\<not> snd (PathLevel st F) \<longrightarrow>
            skip st stk s = (snd (PathLevel st P) \<and> fst (PathLevel st P) > s))
       \<and> (PathLevel_clog st F = (t, True) \<longrightarrow> skip_clog st stk s = (t > s))
       \<and> (\<not> snd (PathLevel_clog st F) \<longrightarrow>
            skip_clog st stk s = (snd (PathLevel_clog st P) \<and> fst (PathLevel_clog st P) > s))
       \<and> skip_part000 st stk s =
            ((snd (PathLevel_clog st F) \<and> fst (PathLevel_clog st F) > s)
             \<or> (snd (PathLevel_clog st P) \<and> fst (PathLevel_clog st P) > s))"
  using assms
  by (auto simp: skip_paths skip_clog_paths skip_part000_paths split: prod.splits bool.splits)

theorem skip_function_level_first_witness:
  "getQualifiedPaths [clog_frame ''skip'', clog_frame ''Info'', worker_frame]
      = (''app/worker'', ''app/worker.Process'')
   \<and> PathLevel split_levels ''app/worker.Process'' = (LevelDebug, True)
   \<and> PathLevel split_levels ''app/worker'' = (LevelError, True)
   \<and> \<not> skip split_levels [clog_frame ''Info'', worker_frame] LevelInfo
   \<and> \<not> skip_clog split_levels [clog_frame ''Info'', worker_frame] LevelInfo
   \<and> skip_part000 split_levels [clog_frame ''Info'', worker_frame] LevelInfo"
  using skip_function_level_first[OF worker_paths, of split_levels LevelDebug "clog_frame ''Info''" LevelInfo]
  by (simp add: worker_paths split_levels_lookup LevelDebug_def LevelInfo_def LevelError_def)

text \<open>
  C1 as stated fails on the earliest file: the function level \<^verbatim>\<open>LevelDebug\<close> permits an
  info message, and the package level \<^verbatim>\<open>LevelError\<close> still suppresses it.
\<close>

theorem skip_part000_falls_through:
  "PathLevel_clog split_levels ''app/worker.Process'' = (LevelDebug, True)
   \<and> \<not> LevelDebug > LevelInfo
   \<and> skip_part000 split_levels [clog_frame ''Info'', worker_frame] LevelInfo"
  by (simp add: skip_part000_paths[OF worker_paths] split_levels_lookup
                LevelDebug_def LevelInfo_def LevelError_def)




text \<open>
  C3. For each of the twelve entry points, every severity and every registry: when the
  override that applies to the call site is greater than the tier's severity the call
  returns the state as it was, with nothing written; when that override is not
  greater, or none applies, the call appends one write sequence to the tier's sink:
  the prefix if the tier's switch is on, then the body, ending in a newline.
\<close>

theorem emit_writes_unless_suppressed:
  assumes "getQualifiedPaths (clog_frame ''skip'' # clog_frame (entry_name tier conv) # stk) = (P, F)"
  shows "(effective_override st P F = Some t \<and> t > tier_level tier \<longrightarrow>
            emit tier conv ex stk format args st = st)
     \<and> ((effective_override st P F = Some t \<and> t \<le> tier_level tier)
          \<or> effective_override st P F = None \<longrightarrow>
            emit tier conv ex stk format args st
              = emitted tier (write_sequence tier conv ex stk format args st) st)
     \<and> written (emitted tier (write_sequence tier conv ex stk format args st) st)
          = (written st)(tier_output tier st :=
               written st (tier_output tier st) @ write_sequence tier conv ex stk format args st)
     \<and> last (concat (write_sequence tier conv ex stk format args st)) = CHR 0x0A"
  using skip_effective[OF assms, of st "tier_level tier"]
  by (auto simp: emit_char written_emitted write_sequence_newline)

theorem emit_writes_unless_suppressed_witness:
  "getQualifiedPaths [clog_frame ''skip'', clog_frame ''Debug'', worker_frame]
      = (''app/worker'', ''app/worker.Process'')
   \<and> effective_override worker_warn ''app/worker'' ''app/worker.Process'' = Some LevelWarn
   \<and> LevelWarn > LevelDebug
   \<and> Debug stub_extern [worker_frame] [StringArg ''tick''] worker_warn = worker_warn
   \<and> LevelWarn \<le> LevelWarn
   \<and> written (Warn stub_extern [worker_frame] [StringArg ''disk full''] worker_warn) os_Stderr
        = [''worker: worker.go:17: '', ''disk full'', [CHR 0x0A]]
   \<and> effective_override init_state ''app/worker'' ''app/worker.Process'' = None
   \<and> written (Infof stub_extern [worker_frame] ''count=5'' [] init_state) os_Stderr
        = [''worker: '', ''count=5'', [CHR 0x0A]]"
proof -
  note A = emit_writes_unless_suppressed[OF worker_paths, where tier = Debug_tier and conv = Print
          and st = worker_warn and t = LevelWarn and ex = stub_extern and format = "[]"
          and args = "[StringArg ''tick'']"]
  note B = emit_writes_unless_suppressed[OF worker_paths, where tier = Warn_tier and conv = Print
          and st = worker_warn and t = LevelWarn and ex = stub_extern and format = "[]"
          and args = "[StringArg ''disk full'']"]
  note C = emit_writes_unless_suppressed[OF worker_paths, where tier = Info_tier and conv = Printf
          and st = init_state and t = 0 and ex = stub_extern and format = "''count=5''"
          and args = "[]"]
  have lv: "LevelWarn > LevelDebug" "LevelWarn \<le> LevelWarn"
    by (simp_all add: LevelWarn_def LevelDebug_def)
  have a: "Debug stub_extern [worker_frame] [StringArg ''tick''] worker_warn = worker_warn"
    using A worker_override(1) lv by simp
  have "Warn stub_extern [worker_frame] [StringArg ''disk full''] worker_warn
          = emitted Warn_tier (write_sequence Warn_tier Print stub_extern [worker_frame] []
                                 [StringArg ''disk full''] worker_warn) worker_warn"
    using B worker_override(1) lv by simp
  then have b: "written (Warn stub_extern [worker_frame] [StringArg ''disk full''] worker_warn) os_Stderr
        = [''worker: worker.go:17: '', ''disk full'', [CHR 0x0A]]"
    by (simp add: written_emitted write_sequence_def worker_tags stub_extern_def fmt_Sprint_def
          worker_warn_def SetPathLevel_def init_state_def)
  have "Infof stub_extern [worker_frame] ''count=5'' [] init_state
          = emitted Info_tier (write_sequence Info_tier Printf stub_extern [worker_frame] ''count=5''
                                 [] init_state) init_state"
    using C worker_override(2) by simp
  then have c: "written (Infof stub_extern [worker_frame] ''count=5'' [] init_state) os_Stderr
        = [''worker: '', ''count=5'', [CHR 0x0A]]"
    by (simp add: written_emitted write_sequence_def worker_tags stub_extern_def init_state_def)
  show ?thesis using a b c lv worker_paths worker_override by simp
qed

text \<open>
  C4. A fatal call that is not suppressed writes its sequence to the error sink and
  exits with status 1; a suppressed one leaves the state as it was; no entry point
  of another tier and no configuration function exits. The same holds for the fatal
  entry points of clog.go.
\<close>

theorem fatal_exits_with_status_1:
  "(\<not> skip st (clog_frame (entry_name Error_tier conv) # stk) LevelError \<longrightarrow>
      exited (emit Error_tier conv ex stk format args st) = Some 1
      \<and> written (emit Error_tier conv ex stk format args st) (errorOutput st)
          = written st (errorOutput st) @ write_sequence Error_tier conv ex stk format args st)
   \<and> (skip st (clog_frame (entry_name Error_tier conv) # stk) LevelError \<longrightarrow>
        emit Error_tier conv ex stk format args st = st)
   \<and> (tier \<noteq> Error_tier \<longrightarrow> exited (emit tier conv ex stk format args st) = exited st)
   \<and> exited (SetPathLevel p l st) = exited st
   \<and> exited (SetMainPrefixName n st) = exited st
   \<and> exited (SetDebugOutput w st) = exited st
   \<and> exited (SetDebugPrefix b st) = exited st
   \<and> exited (SetInfoOutput w st) = exited st
   \<and> exited (SetInfoPrefix b st) = exited st
   \<and> exited (SetWarnOutput w st) = exited st
   \<and> exited (SetWarnPrefix b st) = exited st
   \<and> exited (SetErrorOutput w st) = exited st
   \<and> exited (SetErrorPrefix b st) = exited st
   \<and> (\<not> skip_clog st (clog_frame ''Fatal'' # stk) LevelError \<longrightarrow>
        exited (Fatal_clog ex stk args st) = Some 1
        \<and> written (Fatal_clog ex stk args st) (errorOutput st)
            = written st (errorOutput st)
              @ write_sequence_clog Print ex (clog_frame ''Fatal'' # stk) [] args)
   \<and> (\<not> skip_clog st (clog_frame ''Fatalf'' # stk) LevelError \<longrightarrow>
        exited (Fatalf_clog ex stk format args st) = Some 1
        \<and> written (Fatalf_clog ex stk format args st) (errorOutput st)
            = written st (errorOutput st)
              @ write_sequence_clog Printf ex (clog_frame ''Fatalf'' # stk) format args)
   \<and> (\<not> skip_clog st (clog_frame ''Fatalln'' # stk) LevelError \<longrightarrow>
        exited (Fatalln_clog ex stk args st) = Some 1
        \<and> written (Fatalln_clog ex stk args st) (errorOutput st)
            = written st (errorOutput st)
              @ write_sequence_clog Println ex (clog_frame ''Fatalln'' # stk) [] args)
   \<and> (skip_clog st (clog_frame ''Fatal'' # stk) LevelError \<longrightarrow> Fatal_clog ex stk args st = st)
   \<and> (skip_clog st (clog_frame ''Fatalf'' # stk) LevelError \<longrightarrow>
        Fatalf_clog ex stk format args st = st)
   \<and> (skip_clog st (clog_frame ''Fatalln'' # stk) LevelError \<longrightarrow>
        Fatalln_clog ex stk args st = st)"
  by (simp add: emit_char Fatal_clog_char written_emitted exited_emitted config_keeps_running
                write_sequence_clog_def)

theorem fatal_exits_with_status_1_witness:
  "\<not> skip init_state [clog_frame ''Fatal'', worker_frame] LevelError
   \<and> exited (Fatal stub_extern [worker_frame] [StringArg ''boom''] init_state) = Some 1
   \<and> written (Fatal stub_extern [worker_frame] [StringArg ''boom''] init_state) os_Stderr
        = [''worker: worker.go:17: '', ''boom'', [CHR 0x0A]]
   \<and> skip worker_silent [clog_frame ''Fatal'', worker_frame] LevelError
   \<and> Fatal stub_extern [worker_frame] [StringArg ''boom''] worker_silent = worker_silent
   \<and> exited worker_silent = None
   \<and> exited (Warn stub_extern [worker_frame] [StringArg ''boom''] init_state) = None
   \<and> \<not> skip_clog init_state [clog_frame ''Fatalln'', worker_frame] LevelError
   \<and> exited (Fatalln_clog stub_extern [worker_frame] [StringArg ''boom''] init_state) = Some 1
   \<and> skip_clog worker_silent [clog_frame ''Fatalln'', worker_frame] LevelError
   \<and> Fatalln_clog stub_extern [worker_frame] [StringArg ''boom''] worker_silent = worker_silent"
proof -
  note A = fatal_exits_with_status_1[where conv = Print and st = init_state
             and stk = "[worker_frame]" and ex = stub_extern and format = "[]"
             and args = "[StringArg ''boom'']" and tier = Warn_tier]
  note B = fatal_exits_with_status_1[where conv = Print and st = worker_silent
             and stk = "[worker_frame]" and ex = stub_extern and format = "[]"
             and args = "[StringArg ''boom'']" and tier = Warn_tier]
  have a: "exited (Fatal stub_extern [worker_frame] [StringArg ''boom''] init_state) = Some 1"
    "written (Fatal stub_extern [worker_frame] [StringArg ''boom''] init_state) os_Stderr
        = [''worker: worker.go:17: '', ''boom'', [CHR 0x0A]]"
    "exited (Warn stub_extern [worker_frame] [StringArg ''boom''] init_state) = None"
    "exited (Fatalln_clog stub_extern [worker_frame] [StringArg ''boom''] init_state) = Some 1"
    using A worker_skip(1,3)
    by (simp_all add: write_sequence_def worker_tags stub_extern_def fmt_Sprint_def init_state_def)
  have b: "Fatal stub_extern [worker_frame] [StringArg ''boom''] worker_silent = worker_silent"
    "Fatalln_clog stub_extern [worker_frame] [StringArg ''boom''] worker_silent = worker_silent"
    using B worker_skip(2,4) by simp_all
  have "exited worker_silent = None"
    by (simp add: worker_silent_def SetPathLevel_def init_state_def)
  then show ?thesis using a b worker_skip by simp
qed

text \<open>
  C5 (as amended). When stack inspection fails for the caller, the package and
  function paths are empty and the prefix and file:line tags are empty. The lookup of
  the empty path reads the registry entries for the empty string and for its parent
  \<^verbatim>\<open>.\<close>: the call is suppressed exactly when the first of them that exists is greater
  than the severity. When neither exists the call writes an empty prefix (if the
  switch is on) and the body.
\<close>

theorem unresolved_caller_degrades:
  assumes "callerName (clog_frame ''getQualifiedPaths'' # clog_frame ''skip''
                         # clog_frame (entry_name tier conv) # stk) 3 = (n, f, l, False)"
  shows "getQualifiedPaths (clog_frame ''skip'' # clog_frame (entry_name tier conv) # stk) = ([], [])
     \<and> tier_prefix tier ex st (clog_frame (entry_name tier conv) # stk) = []
     \<and> skip st (clog_frame (entry_name tier conv) # stk) cur =
         (case activeLevel st [] of
            Some t \<Rightarrow> t > cur
          | None \<Rightarrow> (case activeLevel st ''.'' of Some t \<Rightarrow> t > cur | None \<Rightarrow> False))
     \<and> (activeLevel st [] = None \<and> activeLevel st ''.'' = None \<longrightarrow>
          emit tier conv ex stk format args st
            = emitted tier ((if tier_usePrefix tier st then [[]] else [])
                            @ body_chunks conv ex format args) st)"
proof -
  have u: "unresolved stk" using assms by (rule callerName_fails)
  have pre: "tier_prefix tier ex st (clog_frame (entry_name tier conv) # stk) = []"
    using unresolved_prefix[OF u] by (cases tier) simp_all
  show ?thesis
    using unresolved_paths[OF u] unresolved_skip[OF u] pre
    by (simp add: emit_char write_sequence_def)
qed

theorem unresolved_caller_degrades_witness:
  "callerName [clog_frame ''getQualifiedPaths'', clog_frame ''skip'', clog_frame ''Debug'', None] 3
     = ([], [], 0, False)
   \<and> Debug stub_extern [None] [StringArg ''hello''] init_state
       = init_state\<lparr> written := (written init_state)(os_Stderr := [[], ''hello'', [CHR 0x0A]]) \<rparr>
   \<and> \<not> skip init_state [clog_frame ''Debug'', None] LevelDebug"
proof -
  have c: "callerName (clog_frame ''getQualifiedPaths'' # clog_frame ''skip''
                         # clog_frame (entry_name Debug_tier Print) # [None]) 3 = ([], [], 0, False)"
    by (simp add: callerName_def)
  note A = unresolved_caller_degrades[OF c, where ex = stub_extern and st = init_state
             and cur = LevelDebug and format = "[]" and args = "[StringArg ''hello'']"]
  show ?thesis using A c
    by (simp add: init_state_def emitted_def fmt_Sprint_def Let_def)
qed

text \<open>
  C5 as stated fails: with a threshold set on \<^verbatim>\<open>.\<close> a debug call whose caller does not
  resolve is suppressed and writes nothing.
\<close>

theorem unresolved_caller_suppressed:
  "getQualifiedPaths [clog_frame ''skip'', clog_frame ''Debug'', None] = ([], [])
   \<and> skip root_level [clog_frame ''Debug'', None] LevelDebug
   \<and> Debug stub_extern [None] [StringArg ''hello''] root_level = root_level
   \<and> written (Debug stub_extern [None] [StringArg ''hello''] root_level) os_Stderr = []"
proof -
  have u: "unresolved [None]" by (simp add: unresolved_def)
  have s: "skip root_level [clog_frame ''Debug'', None] LevelDebug"
    by (simp add: unresolved_skip[OF u] root_level_def SetPathLevel_def init_state_def
                  LevelError_def LevelDebug_def)
  then have "Debug stub_extern [None] [StringArg ''hello''] root_level = root_level"
    by (simp add: Debug_def)
  then show ?thesis using s unresolved_paths[OF u]
    by (simp add: root_level_def SetPathLevel_def init_state_def)
qed

text \<open>
  C6. Setting a level and reading it back gives that level and \<open>True\<close>, in the
  hierarchical and in the exact lookup; setting the same level twice is setting it
  once; the last of two levels wins. \<^verbatim>\<open>SetPathLevel\<close> is total and accepts every string.
\<close>

theorem SetPathLevel_PathLevel:
  "PathLevel (SetPathLevel p l st) p = (l, True)
   \<and> PathLevel_clog (SetPathLevel p l st) p = (l, True)
   \<and> SetPathLevel p l (SetPathLevel p l st) = SetPathLevel p l st
   \<and> PathLevel (SetPathLevel p l2 (SetPathLevel p l1 st)) p = (l2, True)
   \<and> PathLevel_clog (SetPathLevel p l2 (SetPathLevel p l1 st)) p = (l2, True)
   \<and> SetPathLevel p l2 (SetPathLevel p l1 st) = SetPathLevel p l2 st"
  by (simp add: PathLevel_hit PathLevel_clog_def SetPathLevel_def)

text \<open>
  C7. For a path-qualified function name \<open>F\<close> (its final segment holds the period that
  separates package and function), \<^verbatim>\<open>getPkgPath\<close> is \<open>F\<close> cut at the first period of the
  final segment; the two documented examples hold.
\<close>

theorem getPkgPath_strips_function_suffix:
  "(CHR ''.'' \<in> set (final_segment F) \<longrightarrow> getPkgPath F = spec_pkg_path F)
   \<and> getPkgPath ''github.com/mewpkg/clog.Debugf'' = ''github.com/mewpkg/clog''
   \<and> getPkgPath ''main.main'' = ''main''"
  by (simp add: getPkgPath_char spec_pkg_path_def leading_dirs_def final_segment_def)

theorem getPkgPath_strips_function_suffix_witness:
  "CHR ''.'' \<in> set (final_segment ''a/b.c/pkg.Func.func1'')
   \<and> getPkgPath ''a/b.c/pkg.Func.func1'' = ''a/b.c/pkg''
   \<and> spec_pkg_path ''a/b.c/pkg.Func.func1'' = ''a/b.c/pkg''"
  using getPkgPath_strips_function_suffix[of "''a/b.c/pkg.Func.func1''"]
  by (simp add: spec_pkg_path_def leading_dirs_def final_segment_def)

text \<open>
  C8. After \<^verbatim>\<open>SetMainPrefixName n\<close> with \<open>n\<close> not empty, a name whose derived package name
  is \<^verbatim>\<open>main\<close> gets \<open>n\<close>; with no prefix name set (the initial state) or an empty one, or
  with another package name, \<^verbatim>\<open>getPkgName\<close> gives the derived package name.
\<close>

theorem getPkgName_main_prefix:
  "(n \<noteq> [] \<and> derived_pkg_name name = ''main'' \<longrightarrow> getPkgName (SetMainPrefixName n st) name = n)
   \<and> (mainPrefixName st = [] \<or> derived_pkg_name name \<noteq> ''main'' \<longrightarrow>
        getPkgName st name = derived_pkg_name name)
   \<and> mainPrefixName init_state = []
   \<and> mainPrefixName (SetMainPrefixName n st) = n"
  by (auto simp: getPkgName_char SetMainPrefixName_def init_state_def)

theorem getPkgName_main_prefix_witness:
  "derived_pkg_name ''main.main'' = ''main''
   \<and> getPkgName (SetMainPrefixName ''tool'' init_state) ''main.main'' = ''tool''
   \<and> getPkgName init_state ''main.main'' = ''main''
   \<and> derived_pkg_name ''github.com/mewpkg/clog.Debugf'' = ''clog''
   \<and> getPkgName (SetMainPrefixName ''tool'' init_state) ''github.com/mewpkg/clog.Debugf'' = ''clog''"
  using getPkgName_main_prefix[of "''tool''" "''main.main''" init_state]
        getPkgName_main_prefix[of "''tool''" "''github.com/mewpkg/clog.Debugf''" "SetMainPrefixName ''tool'' init_state"]
  by (simp add: derived_pkg_name_def final_segment_def)

text \<open>
  C9. Suppression is antitone in the severity: a call site that is not suppressed at
  \<open>s\<close> is not suppressed at any \<open>s'\<close> above \<open>s\<close>, in all three files.
\<close>

theorem skip_antitone:
  "s \<le> s' \<Longrightarrow>
     (\<not> skip st stk s \<longrightarrow> \<not> skip st stk s')
     \<and> (\<not> skip_clog st stk s \<longrightarrow> \<not> skip_clog st stk s')
     \<and> (\<not> skip_part000 st stk s \<longrightarrow> \<not> skip_part000 st stk s')"
  by (auto simp: skip_def skip_clog_def skip_part000_def split: prod.splits bool.splits)


theorem skip_antitone_witness:
  "LevelInfo \<le> LevelWarn
   \<and> \<not> skip split_levels [clog_frame ''Info'', worker_frame] LevelInfo
   \<and> \<not> skip split_levels [clog_frame ''Info'', worker_frame] LevelWarn
   \<and> \<not> skip_clog split_levels [clog_frame ''Info'', worker_frame] LevelWarn
   \<and> \<not> skip_part000 split_levels [clog_frame ''Info'', worker_frame] LevelError
   \<and> \<not> skip_part000 split_levels [clog_frame ''Info'', worker_frame] (LevelError + 1)"
  using skip_antitone[of LevelInfo LevelWarn split_levels "[clog_frame ''Info'', worker_frame]"]
        skip_antitone[of LevelError "LevelError + 1" split_levels "[clog_frame ''Info'', worker_frame]"]
  by (simp add: skip_paths[OF worker_paths] skip_clog_paths[OF worker_paths]
                skip_part000_paths[OF worker_paths] split_levels_lookup
                LevelDebug_def LevelInfo_def LevelWarn_def LevelError_def)

text \<open>
  C10. The lookup loop returns for every path and every registry: the loop with
  non-termination as a value returns the result of the terminating function. The
  parent \<^verbatim>\<open>filepath.Dir\<close> computes is never empty, and going up from any path reaches a
  path that is its own parent after finitely many steps.
\<close>

theorem PathLevel_loop_returns:
  "PathLevel_loop st path = Some (PathLevel st path)
   \<and> filepath_Dir path \<noteq> []
   \<and> (\<exists>n. (filepath_Dir ^^ Suc n) path = (filepath_Dir ^^ n) path)"
  using PathLevel_loop_eq ascent_reaches_root filepath_Dir_nonempty by blast

end
